theory Spec2Isabelle
  imports Complex_Main
begin

section \<open>Python values, exceptions and dictionaries\<close>

text \<open>
  The program (\<^verbatim>\<open>carex_app.py\<close>) is a script of two pipelines: \<^verbatim>\<open>scrape_variants\<close>
  harvests the paginated collection listing into a spreadsheet, and
  \<^verbatim>\<open>scrape_search_results\<close> reads that spreadsheet and probes a search page per row
  through one browser session.

  Strings are byte lists: a Python \<^verbatim>\<open>str\<close> is represented by its UTF-8 encoding. A
  finite float is represented by the rational number it denotes; \<open>PNaN\<close> is the float
  \<^verbatim>\<open>nan\<close>, which pandas uses for a missing cell. A dictionary is an association list in
  insertion order; Python dictionaries never repeat a key.
\<close>

datatype exn =
    JSONDecodeError | AttributeError | TypeError | KeyError | IndexError
  | RequestException | WebDriverException | TimeoutException | NoSuchElementException
  | KeyboardInterrupt

text \<open>\<^verbatim>\<open>isinstance(e, Exception)\<close>: what a clause \<^verbatim>\<open>except Exception\<close> catches.
  \<^verbatim>\<open>KeyboardInterrupt\<close> derives from \<^verbatim>\<open>BaseException\<close> only.\<close>

fun is_Exception :: "exn \<Rightarrow> bool" where
  "is_Exception KeyboardInterrupt = False"
| "is_Exception _ = True"

datatype pyval =
    PNone | PBool bool | PInt int | PFloat rat | PNaN | PStr string
  | PList "pyval list" | PDict "(string \<times> pyval) list"

type_synonym dict = "(string \<times> pyval) list"

text \<open>Truth value of a Python object (\<^verbatim>\<open>if x\<close>, \<^verbatim>\<open>not x\<close>).\<close>

fun truthy :: "pyval \<Rightarrow> bool" where
  "truthy PNone = False"
| "truthy (PBool b) = b"
| "truthy (PInt i) = (i \<noteq> 0)"
| "truthy (PFloat r) = (r \<noteq> 0)"
| "truthy PNaN = True"
| "truthy (PStr s) = (s \<noteq> [])"
| "truthy (PList xs) = (xs \<noteq> [])"
| "truthy (PDict d) = (d \<noteq> [])"

text \<open>\<^verbatim>\<open>d[k] = v\<close>: an existing key keeps its position, a new key goes last.\<close>

fun dict_set :: "(string \<times> 'v) list \<Rightarrow> string \<Rightarrow> 'v \<Rightarrow> (string \<times> 'v) list" where
  "dict_set [] k v = [(k, v)]"
| "dict_set ((k', v') # d) k v =
     (if k' = k then (k, v) # d else (k', v') # dict_set d k v)"

text \<open>\<^verbatim>\<open>x.get(k, default)\<close>: only a dictionary has the method.\<close>

fun dict_get :: "pyval \<Rightarrow> string \<Rightarrow> pyval \<Rightarrow> exn + pyval" where
  "dict_get (PDict d) k dflt = Inr (case map_of d k of None \<Rightarrow> dflt | Some v \<Rightarrow> v)"
| "dict_get _ k dflt = Inl AttributeError"

text \<open>\<^verbatim>\<open>for x in v\<close>: a list yields its items, a dictionary its keys, a string its
  characters; nothing else of these values is iterable.\<close>

fun py_iter :: "pyval \<Rightarrow> exn + pyval list" where
  "py_iter (PList xs) = Inr xs"
| "py_iter (PDict d) = Inr (map (\<lambda>kv. PStr (fst kv)) d)"
| "py_iter (PStr s) = Inr (map (\<lambda>c. PStr [c]) s)"
| "py_iter _ = Inl TypeError"

text \<open>\<^verbatim>\<open>xs[i]\<close> for an index \<open>i \<ge> 0\<close>.\<close>

definition py_index :: "'a list \<Rightarrow> nat \<Rightarrow> exn + 'a" where
  "py_index xs i = (if i < length xs then Inr (xs ! i) else Inl IndexError)"

text \<open>Decimal digits of an integer, as \<^verbatim>\<open>str\<close> and f-strings print it.\<close>

fun str_nat :: "nat \<Rightarrow> string" where
  "str_nat n =
     (if n < 10 then [''0123456789'' ! n]
      else str_nat (n div 10) @ [''0123456789'' ! (n mod 10)])"

declare str_nat.simps [simp del]

definition str_int :: "int \<Rightarrow> string" where
  "str_int i = (if i < 0 then ''-'' @ str_nat (nat (- i)) else str_nat (nat i))"

section \<open>The libraries the script calls\<close>

text \<open>
  What \<^verbatim>\<open>requests\<close>, \<^verbatim>\<open>re\<close>, \<^verbatim>\<open>json\<close> and pandas compute is not code of this
  repository. The model takes it as a parameter, one field per call site:
  \<^item> \<open>requests_get url\<close>: \<^verbatim>\<open>requests.get(url, headers=headers)\<close>, a response or an
    exception;
  \<^item> \<open>re_search_meta html\<close>: group 1 of
    \<^verbatim>\<open>re.search(r'var meta = ({.*?});\s*for \(var attr in meta\)', html, re.DOTALL)\<close>,
    \<open>None\<close> when there is no match;
  \<^item> \<open>json_loads s\<close>: \<^verbatim>\<open>json.loads(s)\<close>, a value or \<open>JSONDecodeError\<close>;
  \<^item> \<open>re_findall_prefetch html\<close>: the list
    \<^verbatim>\<open>re.findall(r'<link rel="prefetch" href="([^"]+/products/[^"/]+)"', html)\<close>;
  \<^item> \<open>str_other v\<close>: \<^verbatim>\<open>str(v)\<close> for a float, a list or a dictionary;
  \<^item> \<open>truediv_100 col\<close>: the column \<^verbatim>\<open>col / 100\<close> of pandas (floating point), or the
    exception it raises on a column it cannot divide.
\<close>

record response =
  status_code :: int
  res_text :: string

record lib =
  requests_get :: "string \<Rightarrow> exn + response"
  re_search_meta :: "string \<Rightarrow> string option"
  json_loads :: "string \<Rightarrow> exn + pyval"
  re_findall_prefetch :: "string \<Rightarrow> string list"
  str_other :: "pyval \<Rightarrow> string"
  truediv_100 :: "pyval list \<Rightarrow> exn + pyval list"

text \<open>\<^verbatim>\<open>str(v)\<close>, also what an f-string prints for \<^verbatim>\<open>{v}\<close>.\<close>

definition py_str :: "lib \<Rightarrow> pyval \<Rightarrow> string" where
  "py_str L v =
     (case v of
        PNone \<Rightarrow> ''None''
      | PBool b \<Rightarrow> (if b then ''True'' else ''False'')
      | PInt i \<Rightarrow> str_int i
      | PStr s \<Rightarrow> s
      | _ \<Rightarrow> str_other L v)"

section \<open>Collection harvester\<close>

subsection \<open>Helper functions\<close>

definition extract_variants_from_script :: "lib \<Rightarrow> string \<Rightarrow> exn + pyval" where
  "extract_variants_from_script L html =
     (case re_search_meta L html of
        None \<Rightarrow> Inr (PList [])
      | Some meta_json \<Rightarrow>
          (case json_loads L meta_json of
             Inl e \<Rightarrow> Inl e
           | Inr meta_data \<Rightarrow> dict_get meta_data ''products'' (PList [])))"

definition extract_product_urls_from_collection_page :: "lib \<Rightarrow> string \<Rightarrow> string list" where
  "extract_product_urls_from_collection_page L html = re_findall_prefetch L html"

text \<open>The two \<^verbatim>\<open>for k, v in ....items()\<close> loops of \<^verbatim>\<open>flatten_product_variant\<close>.\<close>

definition product_fields :: "dict \<Rightarrow> dict \<Rightarrow> dict" where
  "product_fields product flat_data =
     fold (\<lambda>kv d. if fst kv \<noteq> ''variants'' then dict_set d (''product_'' @ fst kv) (snd kv) else d)
       product flat_data"

definition variant_fields :: "dict \<Rightarrow> dict \<Rightarrow> dict" where
  "variant_fields variant flat_data =
     fold (\<lambda>kv d. dict_set d (''variant_'' @ fst kv) (snd kv)) variant flat_data"

definition url_val :: "string option \<Rightarrow> pyval" where
  "url_val u = (case u of None \<Rightarrow> PNone | Some s \<Rightarrow> PStr s)"

definition variant_url :: "lib \<Rightarrow> dict \<Rightarrow> string option \<Rightarrow> pyval" where
  "variant_url L variant product_url =
     (case product_url of
        None \<Rightarrow> PNone
      | Some u \<Rightarrow>
          if u \<noteq> [] then
            PStr (u @ ''?variant='' @
              py_str L (case map_of variant ''id'' of None \<Rightarrow> PNone | Some i \<Rightarrow> i))
          else PNone)"

definition flatten_product_variant :: "lib \<Rightarrow> pyval \<Rightarrow> pyval \<Rightarrow> string option \<Rightarrow> exn + dict" where
  "flatten_product_variant L product variant product_url =
     (case product of
        PDict p \<Rightarrow>
          (case variant of
             PDict v \<Rightarrow>
               Inr (dict_set
                      (dict_set (variant_fields v (product_fields p [])) ''product_url''
                         (url_val product_url))
                      ''variant_url'' (variant_url L v product_url))
           | _ \<Rightarrow> Inl AttributeError)
      | _ \<Rightarrow> Inl AttributeError)"

subsection \<open>The harvest loop\<close>

definition page_url :: "nat \<Rightarrow> string" where
  "page_url page = ''https://carex.com/collections/all?page='' @ str_nat page"

text \<open>\<^verbatim>\<open>product_urls[i] if i < len(product_urls) else None\<close>\<close>

definition pair_url :: "string list \<Rightarrow> nat \<Rightarrow> exn + string option" where
  "pair_url product_urls i =
     (if i < length product_urls then
        (case py_index product_urls i of Inl e \<Rightarrow> Inl e | Inr u \<Rightarrow> Inr (Some u))
      else Inr None)"

text \<open>The inner loop \<^verbatim>\<open>for variant in variants\<close>: one row per variant, in order.\<close>

fun variant_rows :: "lib \<Rightarrow> pyval \<Rightarrow> string option \<Rightarrow> pyval list \<Rightarrow> exn + dict list" where
  "variant_rows L product product_url [] = Inr []"
| "variant_rows L product product_url (variant # variants) =
     (case flatten_product_variant L product variant product_url of
        Inl e \<Rightarrow> Inl e
      | Inr row \<Rightarrow>
          (case variant_rows L product product_url variants of
             Inl e \<Rightarrow> Inl e
           | Inr rows \<Rightarrow> Inr (row # rows)))"

text \<open>The body of \<^verbatim>\<open>for i, product in enumerate(products)\<close> for one product.\<close>

definition product_rows :: "lib \<Rightarrow> string list \<Rightarrow> nat \<Rightarrow> pyval \<Rightarrow> exn + dict list" where
  "product_rows L product_urls i product =
     (case pair_url product_urls i of
        Inl e \<Rightarrow> Inl e
      | Inr product_url \<Rightarrow>
          (case dict_get product ''variants'' (PList []) of
             Inl e \<Rightarrow> Inl e
           | Inr variants \<Rightarrow>
               (case py_iter variants of
                  Inl e \<Rightarrow> Inl e
                | Inr vs \<Rightarrow> variant_rows L product product_url vs)))"

fun products_rows :: "lib \<Rightarrow> string list \<Rightarrow> nat \<Rightarrow> pyval list \<Rightarrow> exn + dict list" where
  "products_rows L product_urls i [] = Inr []"
| "products_rows L product_urls i (product # products) =
     (case product_rows L product_urls i product of
        Inl e \<Rightarrow> Inl e
      | Inr rows \<Rightarrow>
          (case products_rows L product_urls (Suc i) products of
             Inl e \<Rightarrow> Inl e
           | Inr rest \<Rightarrow> Inr (rows @ rest)))"

text \<open>One turn of the \<^verbatim>\<open>while True\<close> loop, up to the rows it appends: the fetch raised
  or an extraction raised (\<open>PageRaised\<close>), the status was not 200 (\<open>PageFailed\<close>), no
  products were parsed (\<open>PageEmpty\<close>), or the page gave rows.\<close>

datatype page_outcome = PageRaised exn | PageFailed | PageEmpty | PageRows "dict list"

definition scrape_page :: "lib \<Rightarrow> nat \<Rightarrow> page_outcome" where
  "scrape_page L page =
     (case requests_get L (page_url page) of
        Inl e \<Rightarrow> PageRaised e
      | Inr res \<Rightarrow>
          if status_code res \<noteq> 200 then PageFailed
          else
            (case extract_variants_from_script L (res_text res) of
               Inl e \<Rightarrow> PageRaised e
             | Inr products \<Rightarrow>
                 if \<not> truthy products then PageEmpty
                 else
                   (case py_iter products of
                      Inl e \<Rightarrow> PageRaised e
                    | Inr ps \<Rightarrow>
                        (case products_rows L
                                (extract_product_urls_from_collection_page L (res_text res)) 0 ps of
                           Inl e \<Rightarrow> PageRaised e
                         | Inr rows \<Rightarrow> PageRows rows))))"

text \<open>Why the loop stopped, with the page it stopped at (the number of fetches made).\<close>

datatype stop = FetchFailed nat | NoMoreProducts nat

text \<open>The loop, with fuel: it runs as long as the server keeps returning products, so a
  run that needs more turns than \<open>fuel\<close> is \<open>None\<close>. A result \<open>Inl e\<close> is an exception
  leaving the loop, and with it \<^verbatim>\<open>scrape_variants\<close>.\<close>

fun harvest :: "lib \<Rightarrow> nat \<Rightarrow> nat \<Rightarrow> dict list \<Rightarrow> (exn + stop \<times> dict list) option" where
  "harvest L 0 page all_rows = None"
| "harvest L (Suc fuel) page all_rows =
     (case scrape_page L page of
        PageRaised e \<Rightarrow> Some (Inl e)
      | PageFailed \<Rightarrow> Some (Inr (FetchFailed page, all_rows))
      | PageEmpty \<Rightarrow> Some (Inr (NoMoreProducts page, all_rows))
      | PageRows rows \<Rightarrow> harvest L fuel (Suc page) (all_rows @ rows))"

subsection \<open>The write step\<close>

text \<open>A data frame is the list of its columns, each with its cells.
  \<^verbatim>\<open>pd.DataFrame(all_rows)\<close> has the keys of the rows as columns, in the order of their
  first appearance, and \<open>PNaN\<close> where a row lacks the key.\<close>

type_synonym frame = "(string \<times> pyval list) list"

definition add_columns :: "dict \<Rightarrow> string list \<Rightarrow> string list" where
  "add_columns row cols = fold (\<lambda>kv cs. if fst kv \<in> set cs then cs else cs @ [fst kv]) row cols"

definition cell :: "string \<Rightarrow> dict \<Rightarrow> pyval" where
  "cell c row = (case map_of row c of None \<Rightarrow> PNaN | Some v \<Rightarrow> v)"

definition DataFrame :: "dict list \<Rightarrow> frame" where
  "DataFrame all_rows = map (\<lambda>c. (c, map (cell c) all_rows)) (fold add_columns all_rows [])"

text \<open>\<^verbatim>\<open>df[keep_columns]\<close>: a label that is not a column raises \<open>KeyError\<close>.\<close>

fun select_columns :: "frame \<Rightarrow> string list \<Rightarrow> exn + frame" where
  "select_columns df [] = Inr []"
| "select_columns df (c # cs) =
     (case map_of df c of
        None \<Rightarrow> Inl KeyError
      | Some col \<Rightarrow>
          (case select_columns df cs of
             Inl e \<Rightarrow> Inl e
           | Inr rest \<Rightarrow> Inr ((c, col) # rest)))"

definition keep_columns :: "string list" where
  "keep_columns = [''variant_name'', ''variant_sku'', ''variant_price_usd'', ''variant_public_title'']"

text \<open>Lines 107 to 120: the frame written to \<^verbatim>\<open>carex_variants_raw.xlsx\<close>, or the
  exception raised before \<^verbatim>\<open>to_excel\<close> is reached.\<close>

definition add_price_usd :: "lib \<Rightarrow> frame \<Rightarrow> exn + frame" where
  "add_price_usd L df =
     (case map_of df ''variant_price'' of
        None \<Rightarrow> Inr df
      | Some col \<Rightarrow>
          (case truediv_100 L col of
             Inl e \<Rightarrow> Inl e
           | Inr usd \<Rightarrow> Inr (dict_set df ''variant_price_usd'' usd)))"

definition save_variants :: "lib \<Rightarrow> dict list \<Rightarrow> exn + frame" where
  "save_variants L all_rows =
     (case add_price_usd L (DataFrame all_rows) of
        Inl e \<Rightarrow> Inl e
      | Inr df \<Rightarrow> select_columns df keep_columns)"

text \<open>\<^verbatim>\<open>scrape_variants\<close> up to the write of the file (the calls that only display
  are left out). \<open>Some (Inr (s, df))\<close>: the loop stopped for \<open>s\<close> and the file was written
  with \<open>df\<close>. \<open>Some (Inl e)\<close>: \<open>e\<close> was raised and no file was written.\<close>

definition scrape_variants :: "lib \<Rightarrow> nat \<Rightarrow> (exn + stop \<times> frame) option" where
  "scrape_variants L fuel =
     (case harvest L fuel 1 [] of
        None \<Rightarrow> None
      | Some (Inl e) \<Rightarrow> Some (Inl e)
      | Some (Inr (s, all_rows)) \<Rightarrow>
          (case save_variants L all_rows of
             Inl e \<Rightarrow> Some (Inl e)
           | Inr df \<Rightarrow> Some (Inr (s, df))))"

section \<open>Stock checker\<close>

text \<open>A cell of the frame read from the spreadsheet, or put into a row by the script:
  \<open>XNaN\<close> is an empty cell as \<^verbatim>\<open>pd.read_excel\<close> returns it, \<open>XNone\<close> is Python's
  \<^verbatim>\<open>None\<close>. A row of the frame maps its column labels to cells.\<close>

datatype xcell = XNaN | XNone | XBool bool | XInt int | XFloat rat | XStr string

type_synonym xrow = "(string \<times> xcell) list"

fun notna :: "xcell \<Rightarrow> bool" where
  "notna XNaN = False"
| "notna XNone = False"
| "notna _ = True"

fun xstr :: "lib \<Rightarrow> xcell \<Rightarrow> string" where
  "xstr L XNaN = py_str L PNaN"
| "xstr L XNone = py_str L PNone"
| "xstr L (XBool b) = py_str L (PBool b)"
| "xstr L (XInt i) = py_str L (PInt i)"
| "xstr L (XFloat r) = py_str L (PFloat r)"
| "xstr L (XStr s) = py_str L (PStr s)"

subsection \<open>The search URL\<close>

text \<open>\<^verbatim>\<open>urllib.parse.quote(s)\<close> with its default \<^verbatim>\<open>safe='/'\<close>: letters, digits and
  \<^verbatim>\<open>_.-~/\<close> stay, every other byte of the UTF-8 encoding becomes \<^verbatim>\<open>%XX\<close>.\<close>

definition always_safe :: "char \<Rightarrow> bool" where
  "always_safe c =
     (c \<in> set ''ABCDEFGHIJKLMNOPQRSTUVWXYZabcdefghijklmnopqrstuvwxyz0123456789_.-~/'')"

definition hex_digit :: "nat \<Rightarrow> char" where
  "hex_digit n = ''0123456789ABCDEF'' ! n"

fun quote :: "string \<Rightarrow> string" where
  "quote [] = []"
| "quote (c # cs) =
     (if always_safe c then [c]
      else [CHR ''%'', hex_digit (of_char c div 16), hex_digit (of_char c mod 16)]) @ quote cs"

definition base_search_url :: string where
  "base_search_url = ''https://carex.com/pages/search-results-page?q=''"

text \<open>\<^verbatim>\<open>row[c]\<close> on a row of the frame.\<close>

definition row_get :: "xrow \<Rightarrow> string \<Rightarrow> exn + xcell" where
  "row_get row c = (case map_of row c of None \<Rightarrow> Inl KeyError | Some v \<Rightarrow> Inr v)"

definition make_search_url :: "lib \<Rightarrow> xrow \<Rightarrow> exn + string option" where
  "make_search_url L row =
     (case row_get row ''variant_sku'' of
        Inl e \<Rightarrow> Inl e
      | Inr sku \<Rightarrow>
          (case (if notna sku then Inr sku else row_get row ''variant_name'') of
             Inl e \<Rightarrow> Inl e
           | Inr query \<Rightarrow>
               Inr (if notna query then Some (base_search_url @ quote (xstr L query)) else None)))"

text \<open>\<^verbatim>\<open>df_input["search_url"] = df_input.apply(make_search_url, axis=1)\<close>, row by row.\<close>

definition url_cell :: "string option \<Rightarrow> xcell" where
  "url_cell u = (case u of None \<Rightarrow> XNone | Some s \<Rightarrow> XStr s)"

fun add_search_url :: "lib \<Rightarrow> xrow list \<Rightarrow> exn + xrow list" where
  "add_search_url L [] = Inr []"
| "add_search_url L (row # rows) =
     (case make_search_url L row of
        Inl e \<Rightarrow> Inl e
      | Inr u \<Rightarrow>
          (case add_search_url L rows of
             Inl e \<Rightarrow> Inl e
           | Inr rest \<Rightarrow> Inr (dict_set row ''search_url'' (url_cell u) # rest)))"

subsection \<open>Probing the search page\<close>

text \<open>
  The browser is a parameter: \<open>driver t url\<close> is what the \<open>t\<close>-th navigation of the
  session (counted from 0) shows when it is sent to \<open>url\<close>, the value of the row's
  \<^verbatim>\<open>search_url\<close> cell.
  \<^item> \<open>Raises e\<close>: \<^verbatim>\<open>driver.get\<close>, the wait for the first \<^verbatim>\<open>snize-product\<close> element or
    \<^verbatim>\<open>find_element\<close> raised \<open>e\<close>;
  \<^item> \<open>Product classes link\<close>: the element was found, its \<^verbatim>\<open>class\<close> attribute is
    \<open>classes\<close> (\<open>None\<close> when it has none), and the inner \<^verbatim>\<open>try\<close> either raised
    (\<open>LinkRaises\<close>) or read the attribute \<^verbatim>\<open>href\<close> of the \<^verbatim>\<open>snize-view-link\<close> element.
\<close>

datatype link_probe = LinkRaises | LinkHref "string option"

datatype page_probe = Raises exn | Product "string option" link_probe

type_synonym driver = "nat \<Rightarrow> xcell \<Rightarrow> page_probe"

fun starts_with :: "string \<Rightarrow> string \<Rightarrow> bool" where
  "starts_with s [] = True"
| "starts_with [] (p # ps) = False"
| "starts_with (c # cs) (p # ps) = (c = p \<and> starts_with cs ps)"

text \<open>\<^verbatim>\<open>needle in s\<close> on strings.\<close>

fun contains :: "string \<Rightarrow> string \<Rightarrow> bool" where
  "contains [] needle = (needle = [])"
| "contains (c # cs) needle = (starts_with (c # cs) needle \<or> contains cs needle)"

definition stock_status_of :: "string \<Rightarrow> string" where
  "stock_status_of classes =
     (if contains classes ''snize-product-in-stock'' then ''In Stock''
      else if contains classes ''snize-product-out-of-stock'' then ''Out of Stock''
      else ''Unknown'')"

definition product_url_of :: "link_probe \<Rightarrow> xcell" where
  "product_url_of link =
     (case link of
        LinkRaises \<Rightarrow> XNone
      | LinkHref None \<Rightarrow> XNone
      | LinkHref (Some href) \<Rightarrow>
          if href \<noteq> [] \<and> starts_with href ''/products/'' then XStr (''https://carex.com'' @ href)
          else XStr href)"

text \<open>The retry loop \<^verbatim>\<open>for attempt in range(retries)\<close>. The result comes with the
  session's navigation count after the call. An attribute \<^verbatim>\<open>class\<close> of \<open>None\<close> makes
  the test \<^verbatim>\<open>in classes\<close> raise \<open>TypeError\<close>, which the clause
  \<^verbatim>\<open>except Exception\<close> catches as it does any exception but \<open>KeyboardInterrupt\<close>.\<close>

fun extract_first_product_info ::
  "driver \<Rightarrow> nat \<Rightarrow> xcell \<Rightarrow> nat \<Rightarrow> (exn + xcell \<times> string) \<times> nat" where
  "extract_first_product_info drv t search_url 0 = (Inr (XNone, ''Retry Failed''), t)"
| "extract_first_product_info drv t search_url (Suc retries) =
     (case drv t search_url of
        Raises e \<Rightarrow>
          if is_Exception e then extract_first_product_info drv (Suc t) search_url retries
          else (Inl e, Suc t)
      | Product None link \<Rightarrow> extract_first_product_info drv (Suc t) search_url retries
      | Product (Some classes) link \<Rightarrow>
          (Inr (product_url_of link, stock_status_of classes), Suc t))"

subsection \<open>The run\<close>

text \<open>The loop \<^verbatim>\<open>for idx, row in df_input.iterrows()\<close>, from navigation count \<open>t\<close>.\<close>

fun check_rows :: "driver \<Rightarrow> nat \<Rightarrow> xrow list \<Rightarrow> (exn + xrow list) \<times> nat" where
  "check_rows drv t [] = (Inr [], t)"
| "check_rows drv t (row # rows) =
     (case row_get row ''search_url'' of
        Inl e \<Rightarrow> (Inl e, t)
      | Inr search_url \<Rightarrow>
          (case extract_first_product_info drv t search_url 5 of
             (Inl e, t') \<Rightarrow> (Inl e, t')
           | (Inr (product_url, stock_status), t') \<Rightarrow>
               (case check_rows drv t' rows of
                  (Inl e, t'') \<Rightarrow> (Inl e, t'')
                | (Inr results, t'') \<Rightarrow>
                    (Inr (dict_set (dict_set row ''product_page_url'' product_url)
                            ''stock_status'' (XStr stock_status) # results), t''))))"

text \<open>What a run of \<^verbatim>\<open>scrape_search_results\<close> did, up to the write of
  \<^verbatim>\<open>carex_variants_checked.xlsx\<close>: whether \<^verbatim>\<open>init_driver\<close> was called and
  \<^verbatim>\<open>driver.quit\<close> was, how many navigations the session made, the rows written
  (\<open>None\<close>: no file written), and the exception that ended the run, if one did.\<close>

record checker_run =
  driver_acquired :: bool
  driver_quit :: bool
  navigations :: nat
  saved :: "xrow list option"
  run_raised :: "exn option"

text \<open>The input is the frame read from \<^verbatim>\<open>carex_variants_raw.xlsx\<close>, or \<open>None\<close> when
  the file does not exist.\<close>

definition scrape_search_results :: "lib \<Rightarrow> driver \<Rightarrow> xrow list option \<Rightarrow> checker_run" where
  "scrape_search_results L drv input_file =
     (case input_file of
        None \<Rightarrow>
          \<lparr>driver_acquired = False, driver_quit = False, navigations = 0,
           saved = None, run_raised = None\<rparr>
      | Some df_input \<Rightarrow>
          (case add_search_url L df_input of
             Inl e \<Rightarrow>
               \<lparr>driver_acquired = False, driver_quit = False, navigations = 0,
                saved = None, run_raised = Some e\<rparr>
           | Inr df \<Rightarrow>
               (case check_rows drv 0 df of
                  (Inl e, t) \<Rightarrow>
                    \<lparr>driver_acquired = True, driver_quit = False, navigations = t,
                     saved = None, run_raised = Some e\<rparr>
                | (Inr results, t) \<Rightarrow>
                    \<lparr>driver_acquired = True, driver_quit = True, navigations = t,
                     saved = Some results, run_raised = None\<rparr>)))"

section \<open>Example inputs\<close>

text \<open>Concrete pages, rows and browsers, for the closed theorems below. The library fields of
  \<open>demo_lib\<close> are tables: they hold what \<^verbatim>\<open>re\<close>, \<^verbatim>\<open>json\<close> and pandas return on the
  texts and columns of these examples, and a placeholder nobody reads elsewhere.\<close>

text \<open>A collection page with one product of one variant and its prefetch link;
  \<open>page1_meta\<close> is the text the pattern captures in it and \<open>page1_data\<close> what
  \<^verbatim>\<open>json.loads\<close> makes of that text.\<close>

definition page1_html :: string where
  \<open>page1_html = ''<link rel="prefetch" href="https://carex.com/products/bed-rail"><script>var meta = {"products":[{"id":1,"variants":[{"id":11,"price":1500,"name":"Bed Rail","public_title":null,"sku":"FGA-1"}]}]}; for (var attr in meta) {}</script>''\<close>

definition page1_meta :: string where
  \<open>page1_meta = ''{"products":[{"id":1,"variants":[{"id":11,"price":1500,"name":"Bed Rail","public_title":null,"sku":"FGA-1"}]}]}''\<close>

definition page1_data :: pyval where
  "page1_data =
     PDict [(''products'', PList [PDict [(''id'', PInt 1),
       (''variants'', PList [PDict [(''id'', PInt 11), (''price'', PInt 1500),
          (''name'', PStr ''Bed Rail''), (''public_title'', PNone), (''sku'', PStr ''FGA-1'')]])]])]"

text \<open>A page past the end of the catalogue: the script is there, its product list is
  empty.\<close>

definition last_html :: string where
  \<open>last_html = ''<script>var meta = {"products":[]}; for (var attr in meta) {}</script>''\<close>

definition last_meta :: string where
  \<open>last_meta = ''{"products":[]}''\<close>

text \<open>A page whose captured text is not JSON.\<close>

definition bad_html :: string where
  \<open>bad_html = ''<script>var meta = {"products":[}; for (var attr in meta) {}</script>''\<close>

definition bad_meta :: string where
  \<open>bad_meta = ''{"products":[}''\<close>

definition demo_search :: "string \<Rightarrow> string option" where
  "demo_search html =
     (if html = page1_html then Some page1_meta
      else if html = last_html then Some last_meta
      else if html = bad_html then Some bad_meta
      else None)"

definition demo_loads :: "string \<Rightarrow> exn + pyval" where
  "demo_loads s =
     (if s = page1_meta then Inr page1_data
      else if s = last_meta then Inr (PDict [(''products'', PList [])])
      else Inl JSONDecodeError)"

definition demo_findall :: "string \<Rightarrow> string list" where
  "demo_findall html =
     (if html = page1_html then [''https://carex.com/products/bed-rail''] else [])"

definition demo_truediv :: "pyval list \<Rightarrow> exn + pyval list" where
  "demo_truediv col = (if col = [PInt 1500] then Inr [PFloat 15] else Inl TypeError)"

definition demo_lib :: "(string \<Rightarrow> exn + response) \<Rightarrow> lib" where
  "demo_lib get =
     \<lparr>requests_get = get, re_search_meta = demo_search, json_loads = demo_loads,
      re_findall_prefetch = demo_findall, str_other = (\<lambda>v. []), truediv_100 = demo_truediv\<rparr>"

text \<open>A server that answers page 1 with \<open>page1_html\<close> and every other page
  with status 500.\<close>

definition failing_second_page :: "string \<Rightarrow> exn + response" where
  "failing_second_page url =
     (if url = ''https://carex.com/collections/all?page=1''
      then Inr \<lparr>status_code = 200, res_text = page1_html\<rparr>
      else Inr \<lparr>status_code = 500, res_text = []\<rparr>)"

text \<open>The rows \<open>page1_html\<close> flattens to.\<close>

definition page1_rows :: "dict list" where
  "page1_rows =
     [[(''product_id'', PInt 1), (''variant_id'', PInt 11), (''variant_price'', PInt 1500),
       (''variant_name'', PStr ''Bed Rail''), (''variant_public_title'', PNone),
       (''variant_sku'', PStr ''FGA-1''),
       (''product_url'', PStr ''https://carex.com/products/bed-rail''),
       (''variant_url'', PStr ''https://carex.com/products/bed-rail?variant=11'')]]"

text \<open>A server whose pages have no meta script at all.\<close>

definition empty_first_page :: "string \<Rightarrow> exn + response" where
  "empty_first_page url =
     Inr \<lparr>status_code = 200, res_text = ''<html><body>No products found</body></html>''\<rparr>"

text \<open>A server whose pages are \<open>bad_html\<close>.\<close>

definition bad_first_page :: "string \<Rightarrow> exn + response" where
  "bad_first_page url = Inr \<lparr>status_code = 200, res_text = bad_html\<rparr>"

text \<open>Two products, the second with two variants.\<close>

definition two_products :: "pyval list" where
  "two_products =
     [PDict [(''id'', PInt 1), (''variants'', PList [PDict [(''id'', PInt 11)]])],
      PDict [(''id'', PInt 2), (''variants'', PList [PDict [(''id'', PInt 21)], PDict [(''id'', PInt 22)]])]]"

text \<open>Rows of the frame read from the spreadsheet: with SKU and name, with the name
  only, with neither.\<close>

definition row_both :: xrow where
  "row_both = [(''variant_name'', XStr ''Widget A''), (''variant_sku'', XStr ''ABC-1''),
               (''variant_price_usd'', XFloat 15), (''variant_public_title'', XNaN)]"

definition row_name_only :: xrow where
  "row_name_only = [(''variant_name'', XStr ''Widget A''), (''variant_sku'', XNaN),
                    (''variant_price_usd'', XFloat 15), (''variant_public_title'', XNaN)]"

definition row_neither :: xrow where
  "row_neither = [(''variant_name'', XNaN), (''variant_sku'', XNaN),
                  (''variant_price_usd'', XFloat 15), (''variant_public_title'', XNaN)]"

text \<open>A browser that shows an in-stock product for a URL string and raises
  \<open>WebDriverException\<close> when it is sent to anything else (\<^verbatim>\<open>driver.get(None)\<close>).\<close>

definition rejecting_driver :: driver where
  "rejecting_driver t url =
     (case url of
        XStr s \<Rightarrow> Product (Some ''snize-product snize-product-in-stock'')
                    (LinkHref (Some ''/products/bed-rail''))
      | _ \<Rightarrow> Raises WebDriverException)"

text \<open>A browser session whose navigation is interrupted from the keyboard.\<close>

definition interrupted_driver :: driver where
  "interrupted_driver t url = Raises KeyboardInterrupt"

text \<open>A browser whose wait for the product element always times out.\<close>

definition timing_out_driver :: driver where
  "timing_out_driver t url = Raises TimeoutException"

text \<open>\<open>row_both\<close> with its \<^verbatim>\<open>search_url\<close> cell.\<close>

definition row_both_url :: xrow where
  "row_both_url = [(''variant_name'', XStr ''Widget A''), (''variant_sku'', XStr ''ABC-1''),
               (''variant_price_usd'', XFloat 15), (''variant_public_title'', XNaN),
               (''search_url'', XStr ''https://carex.com/pages/search-results-page?q=ABC-1'')]"

section \<open>Flattening\<close>

lemma map_of_dict_set: "map_of (dict_set d k v) = (map_of d)(k \<mapsto> v)"
  by (induction d) (auto simp: fun_eq_iff)

lemma keys_dict_set: "fst ` set (dict_set d k v) = insert k (fst ` set d)"
  by (simp add: dom_map_of_conv_image_fst [symmetric] map_of_dict_set)

lemma distinct_dict_set: "distinct (map fst d) \<Longrightarrow> distinct (map fst (dict_set d k v))"
  by (induction d) (auto simp: keys_dict_set)

lemma product_fields_Nil [simp]: "product_fields [] d = d"
  by (simp add: product_fields_def)

lemma product_fields_Cons [simp]:
  "product_fields (kv # p) d =
     product_fields p (if fst kv \<noteq> ''variants'' then dict_set d (''product_'' @ fst kv) (snd kv) else d)"
  by (simp add: product_fields_def)

lemma variant_fields_Nil [simp]: "variant_fields [] d = d"
  by (simp add: variant_fields_def)

lemma variant_fields_Cons [simp]:
  "variant_fields (kv # v) d = variant_fields v (dict_set d (''variant_'' @ fst kv) (snd kv))"
  by (simp add: variant_fields_def)

lemma distinct_product_fields:
  "distinct (map fst d) \<Longrightarrow> distinct (map fst (product_fields p d))"
  by (induction p arbitrary: d) (auto simp: distinct_dict_set)

lemma distinct_variant_fields:
  "distinct (map fst d) \<Longrightarrow> distinct (map fst (variant_fields v d))"
  by (induction v arbitrary: d) (auto simp: distinct_dict_set)

lemma product_fields_other:
  "\<forall>k \<in> fst ` set p. key \<noteq> ''product_'' @ k \<Longrightarrow> map_of (product_fields p d) key = map_of d key"
  by (induction p arbitrary: d) (auto simp: map_of_dict_set)

lemma variant_fields_other:
  "\<forall>k \<in> fst ` set v. key \<noteq> ''variant_'' @ k \<Longrightarrow> map_of (variant_fields v d) key = map_of d key"
  by (induction v arbitrary: d) (auto simp: map_of_dict_set)

lemma product_fields_field:
  "distinct (map fst p) \<Longrightarrow> (k, x) \<in> set p \<Longrightarrow> k \<noteq> ''variants'' \<Longrightarrow>
   map_of (product_fields p d) (''product_'' @ k) = Some x"
proof (induction p arbitrary: d)
  case Nil
  then show ?case by simp
next
  case (Cons kv p)
  show ?case
  proof (cases "kv = (k, x)")
    case True
    with Cons.prems have "\<forall>k' \<in> fst ` set p. ''product_'' @ k \<noteq> ''product_'' @ k'"
      by force
    then show ?thesis using True Cons.prems
      by (simp add: product_fields_other map_of_dict_set)
  next
    case False
    with Cons show ?thesis by auto
  qed
qed

lemma variant_fields_field:
  "distinct (map fst v) \<Longrightarrow> (k, x) \<in> set v \<Longrightarrow>
   map_of (variant_fields v d) (''variant_'' @ k) = Some x"
proof (induction v arbitrary: d)
  case Nil
  then show ?case by simp
next
  case (Cons kv v)
  show ?case
  proof (cases "kv = (k, x)")
    case True
    with Cons.prems have "\<forall>k' \<in> fst ` set v. ''variant_'' @ k \<noteq> ''variant_'' @ k'"
      by force
    then show ?thesis using True Cons.prems
      by (simp add: variant_fields_other map_of_dict_set)
  next
    case False
    with Cons show ?thesis by auto
  qed
qed

text \<open>Claim C2, as the code has it. For a product and a variant (dictionaries, so without
  repeated keys), \<^verbatim>\<open>flatten_product_variant\<close> returns a row without repeated keys in which
  every product field other than \<^verbatim>\<open>variants\<close> and \<^verbatim>\<open>url\<close> keeps its value under
  \<^verbatim>\<open>product_\<close> + name and every variant field other than \<^verbatim>\<open>url\<close> keeps its value
  under \<^verbatim>\<open>variant_\<close> + name: a product field never collides with a variant field. The
  keys \<^verbatim>\<open>product_url\<close> and \<^verbatim>\<open>variant_url\<close> hold the derived values, whatever a field
  named \<^verbatim>\<open>url\<close> held.\<close>

theorem flatten_keys:
  assumes "distinct (map fst p)" and "distinct (map fst v)"
  shows "\<exists>row. flatten_product_variant L (PDict p) (PDict v) product_url = Inr row
     \<and> distinct (map fst row)
     \<and> (\<forall>k x. (k, x) \<in> set p \<and> k \<noteq> ''variants'' \<and> k \<noteq> ''url''
           \<longrightarrow> map_of row (''product_'' @ k) = Some x)
     \<and> (\<forall>k x. (k, x) \<in> set v \<and> k \<noteq> ''url'' \<longrightarrow> map_of row (''variant_'' @ k) = Some x)
     \<and> map_of row ''product_url'' = Some (url_val product_url)
     \<and> map_of row ''variant_url'' = Some (variant_url L v product_url)"
proof -
  let ?flat = "variant_fields v (product_fields p [])"
  let ?row = "dict_set (dict_set ?flat ''product_url'' (url_val product_url))
                ''variant_url'' (variant_url L v product_url)"
  have row: "flatten_product_variant L (PDict p) (PDict v) product_url = Inr ?row"
    by (simp add: flatten_product_variant_def)
  have d: "distinct (map fst ?row)"
    by (simp add: distinct_dict_set distinct_variant_fields distinct_product_fields)
  have pf: "map_of ?row (''product_'' @ k) = Some x"
    if "(k, x) \<in> set p" "k \<noteq> ''variants''" "k \<noteq> ''url''" for k x
  proof -
    have "map_of ?flat (''product_'' @ k) = map_of (product_fields p []) (''product_'' @ k)"
      by (rule variant_fields_other) simp
    also have "\<dots> = Some x"
      using product_fields_field [OF assms(1) that(1,2)] by simp
    finally show ?thesis using that by (simp add: map_of_dict_set)
  qed
  have vf: "map_of ?row (''variant_'' @ k) = Some x" if "(k, x) \<in> set v" "k \<noteq> ''url''" for k x
    using variant_fields_field [OF assms(2) that(1)] that(2) by (simp add: map_of_dict_set)
  have "map_of ?row ''product_url'' = Some (url_val product_url)"
    "map_of ?row ''variant_url'' = Some (variant_url L v product_url)"
    by (simp_all add: map_of_dict_set)
  with row d pf vf show ?thesis by blast
qed

text \<open>C2 as stated fails on a field named \<^verbatim>\<open>url\<close>: the product's and the variant's own
  \<^verbatim>\<open>url\<close> values are overwritten by the derived URLs, and the row has four keys where
  six values were written.\<close>

theorem flatten_url_field_overwritten:
  "flatten_product_variant (demo_lib empty_first_page)
     (PDict [(''id'', PInt 1), (''url'', PStr ''/products/bed-rail'')])
     (PDict [(''id'', PInt 11), (''url'', PStr ''/products/bed-rail?v=11'')])
     (Some ''https://carex.com/products/bed-rail'')
   = Inr [(''product_id'', PInt 1),
          (''product_url'', PStr ''https://carex.com/products/bed-rail''),
          (''variant_id'', PInt 11),
          (''variant_url'', PStr ''https://carex.com/products/bed-rail?variant=11'')]"
  by code_simp

text \<open>The theorem for C2 at a product with three fields and a variant
  with two.\<close>

theorem flatten_keys_witness:
  "distinct (map fst [(''id'', PInt 1), (''title'', PStr ''Bed Rail''), (''variants'', PList [])])
   \<and> distinct (map fst [(''id'', PInt 11), (''sku'', PStr ''FGA-1'')])
   \<and> flatten_product_variant (demo_lib empty_first_page)
       (PDict [(''id'', PInt 1), (''title'', PStr ''Bed Rail''), (''variants'', PList [])])
       (PDict [(''id'', PInt 11), (''sku'', PStr ''FGA-1'')])
       (Some ''https://carex.com/products/bed-rail'')
     = Inr [(''product_id'', PInt 1), (''product_title'', PStr ''Bed Rail''),
            (''variant_id'', PInt 11), (''variant_sku'', PStr ''FGA-1''),
            (''product_url'', PStr ''https://carex.com/products/bed-rail''),
            (''variant_url'', PStr ''https://carex.com/products/bed-rail?variant=11'')]"
proof -
  let ?p = "[(''id'', PInt 1), (''title'', PStr ''Bed Rail''), (''variants'', PList [])]"
  let ?v = "[(''id'', PInt 11), (''sku'', PStr ''FGA-1'')]"
  have dp: "distinct (map fst ?p)" and dv: "distinct (map fst ?v)"
    by simp_all
  have ev: "flatten_product_variant (demo_lib empty_first_page) (PDict ?p) (PDict ?v)
       (Some ''https://carex.com/products/bed-rail'')
     = Inr [(''product_id'', PInt 1), (''product_title'', PStr ''Bed Rail''),
            (''variant_id'', PInt 11), (''variant_sku'', PStr ''FGA-1''),
            (''product_url'', PStr ''https://carex.com/products/bed-rail''),
            (''variant_url'', PStr ''https://carex.com/products/bed-rail?variant=11'')]"
    by code_simp
  from flatten_keys [OF dp dv, of "demo_lib empty_first_page" "Some ''https://carex.com/products/bed-rail''"]
    dp dv ev
  show ?thesis by simp
qed

section \<open>The harvest and its write step\<close>

lemma page_failed:
  "requests_get L (page_url page) = Inr res \<Longrightarrow> status_code res \<noteq> 200 \<Longrightarrow>
   scrape_page L page = PageFailed"
  by (simp add: scrape_page_def)

lemma harvest_pages:
  "(\<forall>p. page \<le> p \<and> p < page + n \<longrightarrow> scrape_page L p = PageRows (R p)) \<Longrightarrow> n \<le> fuel \<Longrightarrow>
   harvest L fuel page acc =
   harvest L (fuel - n) (page + n) (acc @ concat (map R [page..<page + n]))"
proof (induction n arbitrary: page acc fuel)
  case 0
  then show ?case by simp
next
  case (Suc n)
  from Suc.prems(2) obtain fuel' where fuel: "fuel = Suc fuel'" and le: "n \<le> fuel'"
    by (cases fuel) auto
  have here: "scrape_page L page = PageRows (R page)"
    using Suc.prems(1) by simp
  have rest: "\<forall>p. Suc page \<le> p \<and> p < Suc page + n \<longrightarrow> scrape_page L p = PageRows (R p)"
    using Suc.prems(1) by simp
  have "harvest L fuel page acc = harvest L fuel' (Suc page) (acc @ R page)"
    by (simp add: fuel here)
  also have "\<dots> = harvest L (fuel' - n) (Suc page + n)
      ((acc @ R page) @ concat (map R [Suc page..<Suc page + n]))"
    by (rule Suc.IH [OF rest le])
  also have "(acc @ R page) @ concat (map R [Suc page..<Suc page + n])
      = acc @ concat (map R [page..<page + Suc n])"
    by (simp add: upt_conv_Cons del: upt_Suc)
  finally show ?case by (simp add: fuel)
qed

lemma map_of_tabulate:
  "map_of (map (\<lambda>c. (c, f c)) cs) c = (if c \<in> set cs then Some (f c) else None)"
  by (induction cs) auto

lemma DataFrame_column:
  "map_of (DataFrame all_rows) c = Some col \<Longrightarrow> col = map (cell c) all_rows"
  by (simp add: DataFrame_def map_of_tabulate split: if_splits)

lemma add_price_usd_other:
  "add_price_usd L df = Inr df' \<Longrightarrow> c \<noteq> ''variant_price_usd'' \<Longrightarrow> map_of df' c = map_of df c"
  by (auto simp: add_price_usd_def map_of_dict_set split: option.splits sum.splits)

lemma select_columns_labels: "select_columns df cs = Inr out \<Longrightarrow> map fst out = cs"
  by (induction cs arbitrary: out) (auto split: option.splits sum.splits)

lemma select_columns_column:
  "select_columns df cs = Inr out \<Longrightarrow> c \<in> set cs \<Longrightarrow> map_of out c = map_of df c \<and> map_of df c \<noteq> None"
  by (induction cs arbitrary: out) (auto split: option.splits sum.splits)

lemma save_variants_column:
  assumes "save_variants L all_rows = Inr df"
    and "c \<in> set keep_columns" and "c \<noteq> ''variant_price_usd''"
  shows "map_of df c = Some (map (cell c) all_rows)"
proof -
  from assms(1) obtain df1 where df1: "add_price_usd L (DataFrame all_rows) = Inr df1"
    and sel: "select_columns df1 keep_columns = Inr df"
    by (auto simp: save_variants_def split: sum.splits)
  from select_columns_column [OF sel assms(2)] obtain col
    where col: "map_of df c = Some col" "map_of df1 c = Some col" by auto
  with add_price_usd_other [OF df1 assms(3)] have "map_of (DataFrame all_rows) c = Some col"
    by simp
  with col show ?thesis by (simp add: DataFrame_column)
qed

lemma save_variants_labels: "save_variants L all_rows = Inr df \<Longrightarrow> map fst df = keep_columns"
  by (auto simp: save_variants_def select_columns_labels split: sum.splits)

lemma save_variants_Nil: "save_variants L [] = Inl KeyError"
  by (simp add: save_variants_def DataFrame_def add_price_usd_def keep_columns_def)

text \<open>Claim C1, as the code has it. When pages 1 to \<open>n\<close> gave rows and the fetch of page
  \<open>n + 1\<close> returns a status other than 200, the loop stops there, after \<open>n + 1\<close>
  fetches, with every row of the earlier pages kept, and \<^verbatim>\<open>scrape_variants\<close> goes on
  to the write step with them: the run ends as the write step on these rows ends, and a
  file that is written has the four output columns and holds the name, SKU and title cells
  of every collected row.\<close>

theorem fetch_failure_keeps_rows:
  assumes pages: "\<forall>p. 1 \<le> p \<and> p \<le> n \<longrightarrow> scrape_page L p = PageRows (R p)"
    and get: "requests_get L (page_url (Suc n)) = Inr res"
    and status: "status_code res \<noteq> 200"
    and fuel: "n < fuel"
  shows "harvest L fuel 1 [] = Some (Inr (FetchFailed (Suc n), concat (map R [1..<Suc n])))
    \<and> scrape_variants L fuel =
        (case save_variants L (concat (map R [1..<Suc n])) of
           Inl e \<Rightarrow> Some (Inl e)
         | Inr df \<Rightarrow> Some (Inr (FetchFailed (Suc n), df)))
    \<and> (\<forall>df. save_variants L (concat (map R [1..<Suc n])) = Inr df \<longrightarrow>
          map fst df = keep_columns
        \<and> map_of df ''variant_name'' = Some (map (cell ''variant_name'') (concat (map R [1..<Suc n])))
        \<and> map_of df ''variant_sku'' = Some (map (cell ''variant_sku'') (concat (map R [1..<Suc n])))
        \<and> map_of df ''variant_public_title'' =
            Some (map (cell ''variant_public_title'') (concat (map R [1..<Suc n]))))"
proof -
  let ?rows = "concat (map R [1..<Suc n])"
  have ok: "\<forall>p. 1 \<le> p \<and> p < 1 + n \<longrightarrow> scrape_page L p = PageRows (R p)"
    using pages by simp
  from fuel obtain fuel' where f': "fuel - n = Suc fuel'"
    by (cases "fuel - n") auto
  have "harvest L fuel 1 [] = harvest L (fuel - n) (1 + n) ([] @ concat (map R [1..<1 + n]))"
    using fuel by (intro harvest_pages [OF ok]) simp
  also have "\<dots> = Some (Inr (FetchFailed (Suc n), ?rows))"
    by (simp add: f' page_failed [OF get status])
  finally have h: "harvest L fuel 1 [] = Some (Inr (FetchFailed (Suc n), ?rows))" .
  then have s: "scrape_variants L fuel =
      (case save_variants L ?rows of
         Inl e \<Rightarrow> Some (Inl e)
       | Inr df \<Rightarrow> Some (Inr (FetchFailed (Suc n), df)))"
    by (simp add: scrape_variants_def)
  have "map fst df = keep_columns
      \<and> map_of df ''variant_name'' = Some (map (cell ''variant_name'') ?rows)
      \<and> map_of df ''variant_sku'' = Some (map (cell ''variant_sku'') ?rows)
      \<and> map_of df ''variant_public_title'' = Some (map (cell ''variant_public_title'') ?rows)"
    if "save_variants L ?rows = Inr df" for df
    using save_variants_labels [OF that] save_variants_column [OF that]
    by (simp add: keep_columns_def)
  with h s show ?thesis by blast
qed

text \<open>C1 as stated fails: page 1 gives one row, page 2 answers with status 500, and the file is
  written, with the row of page 1 in it.\<close>

theorem fetch_failure_counterexample:
  "scrape_page (demo_lib failing_second_page) 2 = PageFailed
   \<and> scrape_variants (demo_lib failing_second_page) 2 =
       Some (Inr (FetchFailed 2,
         [(''variant_name'', [PStr ''Bed Rail'']), (''variant_sku'', [PStr ''FGA-1'']),
          (''variant_price_usd'', [PFloat 15]), (''variant_public_title'', [PNone])]))"
  by code_simp

text \<open>The theorem for C1 at the server that fails on its
  second page.\<close>

theorem fetch_failure_keeps_rows_witness:
  "scrape_page (demo_lib failing_second_page) 1 = PageRows page1_rows
   \<and> requests_get (demo_lib failing_second_page) (page_url 2)
       = Inr \<lparr>status_code = 500, res_text = []\<rparr>
   \<and> harvest (demo_lib failing_second_page) 2 1 [] = Some (Inr (FetchFailed 2, page1_rows))
   \<and> scrape_variants (demo_lib failing_second_page) 2 =
       Some (Inr (FetchFailed 2,
         [(''variant_name'', [PStr ''Bed Rail'']), (''variant_sku'', [PStr ''FGA-1'']),
          (''variant_price_usd'', [PFloat 15]), (''variant_public_title'', [PNone])]))"
proof -
  let ?L = "demo_lib failing_second_page"
  let ?df = "[(''variant_name'', [PStr ''Bed Rail'']), (''variant_sku'', [PStr ''FGA-1'']),
             (''variant_price_usd'', [PFloat 15]), (''variant_public_title'', [PNone])]"
  have p1: "scrape_page ?L 1 = PageRows page1_rows"
    by code_simp
  then have pages: "\<forall>p. 1 \<le> p \<and> p \<le> 1 \<longrightarrow> scrape_page ?L p = PageRows ((\<lambda>_. page1_rows) p)"
    by (auto simp: le_antisym)
  have get: "requests_get ?L (page_url 2) = Inr \<lparr>status_code = 500, res_text = []\<rparr>"
    by code_simp
  then have get': "requests_get ?L (page_url (Suc 1)) = Inr \<lparr>status_code = 500, res_text = []\<rparr>"
    by (simp only: Suc_1)
  have st: "status_code \<lparr>status_code = 500, res_text = []\<rparr> \<noteq> 200"
    by simp
  have save: "save_variants ?L page1_rows = Inr ?df"
    by code_simp
  have rows: "concat (map (\<lambda>_. page1_rows) [1..<2]) = page1_rows"
    by (simp add: upt_rec)
  have lt: "(1::nat) < 2"
    by simp
  note run = fetch_failure_keeps_rows [OF pages get' st lt, unfolded Suc_1, unfolded rows]
  from run have h: "harvest ?L 2 1 [] = Some (Inr (FetchFailed 2, page1_rows))"
    by blast
  from run have "scrape_variants ?L 2 =
      (case save_variants ?L page1_rows of
         Inl e \<Rightarrow> Some (Inl e)
       | Inr df \<Rightarrow> Some (Inr (FetchFailed 2, df)))"
    by blast
  then have s: "scrape_variants ?L 2 = Some (Inr (FetchFailed 2, ?df))"
    by (simp only: save sum.case)
  from p1 get h s show ?thesis
    by blast
qed

text \<open>Claim C5 does not hold of the code. When the first page has no products the loop ends
  normally, the frame built from no rows has no columns, and the selection of the four
  output columns raises \<open>KeyError\<close>: no file is written, whatever the fuel.\<close>

theorem empty_first_page_raises:
  "scrape_page (demo_lib empty_first_page) 1 = PageEmpty
   \<and> scrape_variants (demo_lib empty_first_page) (Suc fuel) = Some (Inl KeyError)"
proof -
  have "scrape_page (demo_lib empty_first_page) 1 = PageEmpty"
    by code_simp
  then show ?thesis
    by (simp add: scrape_variants_def save_variants_Nil)
qed

section \<open>Pairing products with detail URLs\<close>

lemma pair_url_result:
  "pair_url product_urls i = Inr (if i < length product_urls then Some (product_urls ! i) else None)"
  by (simp add: pair_url_def py_index_def)

lemma flatten_no_url:
  "flatten_product_variant L product variant None = Inr row \<Longrightarrow>
   map_of row ''product_url'' = Some PNone \<and> map_of row ''variant_url'' = Some PNone"
  by (auto simp: flatten_product_variant_def map_of_dict_set url_val_def variant_url_def
      split: pyval.splits)

lemma flatten_error: "flatten_product_variant L product variant u = Inl e \<Longrightarrow> e = AttributeError"
  by (auto simp: flatten_product_variant_def split: pyval.splits)

lemma variant_rows_no_url:
  "variant_rows L product None variants = Inr rows \<Longrightarrow>
   length rows = length variants
   \<and> (\<forall>row \<in> set rows. map_of row ''product_url'' = Some PNone
                      \<and> map_of row ''variant_url'' = Some PNone)"
  by (induction variants arbitrary: rows) (auto split: sum.splits dest: flatten_no_url)

lemma variant_rows_error: "variant_rows L product u variants = Inl e \<Longrightarrow> e = AttributeError"
  by (induction variants) (auto split: sum.splits dest: flatten_error)

lemma dict_get_error: "dict_get x k dflt = Inl e \<Longrightarrow> e = AttributeError"
  by (cases x) auto

lemma py_iter_error: "py_iter x = Inl e \<Longrightarrow> e = TypeError"
  by (cases x) auto

lemma product_rows_error:
  "product_rows L product_urls i product = Inl e \<Longrightarrow> e = AttributeError \<or> e = TypeError"
  by (auto simp: product_rows_def pair_url_result split: sum.splits
      dest: dict_get_error py_iter_error variant_rows_error)

lemma products_rows_error:
  "products_rows L product_urls i products = Inl e \<Longrightarrow> e = AttributeError \<or> e = TypeError"
  by (induction products arbitrary: i) (auto split: sum.splits dest: product_rows_error)

lemma products_rows_nth:
  "products_rows L product_urls i products = Inr all_rows \<Longrightarrow> j < length products \<Longrightarrow>
   \<exists>rows. product_rows L product_urls (i + j) (products ! j) = Inr rows \<and> set rows \<subseteq> set all_rows"
proof (induction products arbitrary: i j all_rows)
  case Nil
  then show ?case by simp
next
  case (Cons product products)
  from Cons.prems(1) obtain rows rest where
    rows: "product_rows L product_urls i product = Inr rows"
    and rest: "products_rows L product_urls (Suc i) products = Inr rest"
    and all: "all_rows = rows @ rest"
    by (auto split: sum.splits)
  show ?case
  proof (cases j)
    case 0
    with rows all show ?thesis by simp
  next
    case (Suc j')
    with Cons.prems(2) have "j' < length products" by simp
    from Cons.IH [OF rest this] Suc all show ?thesis by auto
  qed
qed

text \<open>Claim C9. On a page whose list of detail URLs is shorter than its product list, the
  pairing never raises \<open>IndexError\<close>, and a product at an index at or beyond the length
  of the URL list is flattened into one row per variant, each among the rows of the page,
  with \<^verbatim>\<open>product_url\<close> and \<^verbatim>\<open>variant_url\<close> both \<^verbatim>\<open>None\<close>.\<close>

theorem missing_detail_url:
  assumes "products_rows L product_urls 0 products = Inr all_rows"
    and "length product_urls \<le> i" and "i < length products"
  shows "products_rows L product_urls 0 products \<noteq> Inl IndexError
    \<and> (\<exists>variants vs rows.
          dict_get (products ! i) ''variants'' (PList []) = Inr variants
        \<and> py_iter variants = Inr vs
        \<and> product_rows L product_urls i (products ! i) = Inr rows
        \<and> set rows \<subseteq> set all_rows
        \<and> length rows = length vs
        \<and> (\<forall>row \<in> set rows. map_of row ''product_url'' = Some PNone
                           \<and> map_of row ''variant_url'' = Some PNone))"
proof -
  from products_rows_nth [OF assms(1,3)] obtain rows where
    rows: "product_rows L product_urls i (products ! i) = Inr rows" and sub: "set rows \<subseteq> set all_rows"
    by auto
  have url: "pair_url product_urls i = Inr None"
    using assms(2) by (simp add: pair_url_result)
  from rows url obtain variants vs where
    get: "dict_get (products ! i) ''variants'' (PList []) = Inr variants"
    and it: "py_iter variants = Inr vs"
    and vr: "variant_rows L (products ! i) None vs = Inr rows"
    by (auto simp: product_rows_def split: sum.splits)
  from variant_rows_no_url [OF vr] rows sub get it assms(1) show ?thesis
    by auto
qed

text \<open>The theorem for C9 at two products and one detail URL.\<close>

theorem missing_detail_url_witness:
  "products_rows (demo_lib empty_first_page) [''https://carex.com/products/bed-rail''] 0 two_products
     = Inr [[(''product_id'', PInt 1), (''variant_id'', PInt 11),
             (''product_url'', PStr ''https://carex.com/products/bed-rail''),
             (''variant_url'', PStr ''https://carex.com/products/bed-rail?variant=11'')],
            [(''product_id'', PInt 2), (''variant_id'', PInt 21),
             (''product_url'', PNone), (''variant_url'', PNone)],
            [(''product_id'', PInt 2), (''variant_id'', PInt 22),
             (''product_url'', PNone), (''variant_url'', PNone)]]
   \<and> length [''https://carex.com/products/bed-rail''] \<le> (1::nat)
   \<and> 1 < length two_products
   \<and> product_rows (demo_lib empty_first_page) [''https://carex.com/products/bed-rail''] 1
        (two_products ! 1)
     = Inr [[(''product_id'', PInt 2), (''variant_id'', PInt 21),
             (''product_url'', PNone), (''variant_url'', PNone)],
            [(''product_id'', PInt 2), (''variant_id'', PInt 22),
             (''product_url'', PNone), (''variant_url'', PNone)]]
   \<and> products_rows (demo_lib empty_first_page) [''https://carex.com/products/bed-rail''] 0 two_products
       \<noteq> Inl IndexError"
proof -
  let ?L = "demo_lib empty_first_page"
  let ?urls = "[''https://carex.com/products/bed-rail'']"
  let ?all = "[[(''product_id'', PInt 1), (''variant_id'', PInt 11),
             (''product_url'', PStr ''https://carex.com/products/bed-rail''),
             (''variant_url'', PStr ''https://carex.com/products/bed-rail?variant=11'')],
            [(''product_id'', PInt 2), (''variant_id'', PInt 21),
             (''product_url'', PNone), (''variant_url'', PNone)],
            [(''product_id'', PInt 2), (''variant_id'', PInt 22),
             (''product_url'', PNone), (''variant_url'', PNone)]]"
  have a: "products_rows ?L ?urls 0 two_products = Inr ?all"
    by code_simp
  have b: "length ?urls \<le> (1::nat)"
    by simp
  have c: "1 < length two_products"
    by (simp add: two_products_def)
  have d: "product_rows ?L ?urls 1 (two_products ! 1)
     = Inr [[(''product_id'', PInt 2), (''variant_id'', PInt 21),
             (''product_url'', PNone), (''variant_url'', PNone)],
            [(''product_id'', PInt 2), (''variant_id'', PInt 22),
             (''product_url'', PNone), (''variant_url'', PNone)]]"
    by code_simp
  from missing_detail_url [OF a b c] have "products_rows ?L ?urls 0 two_products \<noteq> Inl IndexError"
    by blast
  with a b c d show ?thesis
    by blast
qed

section \<open>Extracting the product list\<close>

text \<open>C10 as stated fails: the pattern is in the page, the parsed object has the key
  \<^verbatim>\<open>products\<close>, and the function returns the empty list, the value under that key.\<close>

theorem empty_products_list_counterexample:
  "re_search_meta (demo_lib empty_first_page) last_html = Some last_meta
   \<and> json_loads (demo_lib empty_first_page) last_meta = Inr (PDict [(''products'', PList [])])
   \<and> extract_variants_from_script (demo_lib empty_first_page) last_html = Inr (PList [])"
  by code_simp

lemma page_raised:
  "requests_get L (page_url page) = Inr res \<Longrightarrow> status_code res = 200 \<Longrightarrow>
   extract_variants_from_script L (res_text res) = Inl e \<Longrightarrow> scrape_page L page = PageRaised e"
  by (simp add: scrape_page_def)

text \<open>Claim C10, as the code has it. \<^verbatim>\<open>extract_variants_from_script\<close> returns the empty
  list exactly when the pattern is absent from the page, or the parsed object has no key
  \<^verbatim>\<open>products\<close>, or the value under that key is itself the empty list. When the
  pattern matches and the captured text does not parse, the function raises the parse
  error, and on a page fetched with status 200 the error leaves the harvest loop: the page
  is not taken for an empty one.\<close>

theorem extract_variants_from_script_results:
  "(extract_variants_from_script L html = Inr (PList [])) =
     (re_search_meta L html = None
      \<or> (\<exists>meta_json d. re_search_meta L html = Some meta_json
            \<and> json_loads L meta_json = Inr (PDict d)
            \<and> (map_of d ''products'' = None \<or> map_of d ''products'' = Some (PList []))))
   \<and> (\<forall>meta_json e. re_search_meta L html = Some meta_json \<and> json_loads L meta_json = Inl e \<longrightarrow>
         extract_variants_from_script L html = Inl e
       \<and> (\<forall>res page fuel all_rows.
             requests_get L (page_url page) = Inr res \<and> status_code res = 200 \<and> res_text res = html
             \<longrightarrow> harvest L (Suc fuel) page all_rows = Some (Inl e)))"
proof (intro conjI allI impI)
  show "(extract_variants_from_script L html = Inr (PList [])) =
     (re_search_meta L html = None
      \<or> (\<exists>meta_json d. re_search_meta L html = Some meta_json
            \<and> json_loads L meta_json = Inr (PDict d)
            \<and> (map_of d ''products'' = None \<or> map_of d ''products'' = Some (PList []))))"
  proof (cases "re_search_meta L html")
    case None
    then show ?thesis by (simp add: extract_variants_from_script_def)
  next
    case (Some meta_json)
    show ?thesis
    proof (cases "json_loads L meta_json")
      case (Inl e)
      with Some show ?thesis by (simp add: extract_variants_from_script_def)
    next
      case (Inr meta_data)
      with Some show ?thesis
        by (cases meta_data) (auto simp: extract_variants_from_script_def split: option.splits)
    qed
  qed
next
  fix meta_json e
  assume "re_search_meta L html = Some meta_json \<and> json_loads L meta_json = Inl e"
  then show ex: "extract_variants_from_script L html = Inl e"
    by (simp add: extract_variants_from_script_def)
  fix res page fuel all_rows
  assume "requests_get L (page_url page) = Inr res \<and> status_code res = 200 \<and> res_text res = html"
  with ex have "scrape_page L page = PageRaised e"
    by (simp add: page_raised)
  then show "harvest L (Suc fuel) page all_rows = Some (Inl e)"
    by simp
qed

text \<open>The theorem for C10 at a page whose
  captured text does not parse and at a page without the script.\<close>

theorem extract_variants_from_script_results_witness:
  "re_search_meta (demo_lib bad_first_page) bad_html = Some bad_meta
   \<and> json_loads (demo_lib bad_first_page) bad_meta = Inl JSONDecodeError
   \<and> extract_variants_from_script (demo_lib bad_first_page) bad_html = Inl JSONDecodeError
   \<and> requests_get (demo_lib bad_first_page) (page_url 1) = Inr \<lparr>status_code = 200, res_text = bad_html\<rparr>
   \<and> harvest (demo_lib bad_first_page) (Suc 0) 1 [] = Some (Inl JSONDecodeError)
   \<and> re_search_meta (demo_lib bad_first_page) ''<html></html>'' = None
   \<and> extract_variants_from_script (demo_lib bad_first_page) ''<html></html>'' = Inr (PList [])"
proof -
  let ?L = "demo_lib bad_first_page"
  have a: "re_search_meta ?L bad_html = Some bad_meta"
    and b: "json_loads ?L bad_meta = Inl JSONDecodeError"
    and c: "requests_get ?L (page_url 1) = Inr \<lparr>status_code = 200, res_text = bad_html\<rparr>"
    and d: "re_search_meta ?L ''<html></html>'' = None"
    by code_simp+
  note inst = extract_variants_from_script_results [of ?L bad_html]
  from inst a b have e: "extract_variants_from_script ?L bad_html = Inl JSONDecodeError"
    by blast
  from inst a b c have f: "harvest ?L (Suc 0) 1 [] = Some (Inl JSONDecodeError)"
    by (metis response.select_convs(1) response.select_convs(2))
  from extract_variants_from_script_results [of ?L "''<html></html>''"] d
  have g: "extract_variants_from_script ?L ''<html></html>'' = Inr (PList [])"
    by blast
  from a b c d e f g show ?thesis
    by blast
qed

section \<open>The search URL of a row\<close>

text \<open>Claim C6. For a row with the columns \<^verbatim>\<open>variant_sku\<close> and \<^verbatim>\<open>variant_name\<close>, the
  query is the SKU when the SKU cell is present (not an empty cell, which the frame holds
  as NaN), otherwise the name when the name cell is present; the search URL is the base URL
  followed by the URL-encoded text of the query; and with neither cell present there is no
  search URL.\<close>

theorem make_search_url_query:
  assumes "row_get row ''variant_sku'' = Inr sku" and "row_get row ''variant_name'' = Inr name"
  shows "make_search_url L row =
     Inr (if notna sku then Some (base_search_url @ quote (xstr L sku))
          else if notna name then Some (base_search_url @ quote (xstr L name))
          else None)"
  using assms by (simp add: make_search_url_def)

text \<open>The theorem for C6 at the three example rows: the SKU
  \<^verbatim>\<open>ABC-1\<close> gives \<^verbatim>\<open>q=ABC-1\<close>, the name \<^verbatim>\<open>Widget A\<close> without a SKU gives
  \<^verbatim>\<open>q=Widget%20A\<close>, and neither gives no URL.\<close>

theorem make_search_url_query_witness:
  "row_get row_both ''variant_sku'' = Inr (XStr ''ABC-1'')
   \<and> row_get row_both ''variant_name'' = Inr (XStr ''Widget A'')
   \<and> make_search_url (demo_lib empty_first_page) row_both
       = Inr (Some ''https://carex.com/pages/search-results-page?q=ABC-1'')
   \<and> row_get row_name_only ''variant_sku'' = Inr XNaN
   \<and> row_get row_name_only ''variant_name'' = Inr (XStr ''Widget A'')
   \<and> make_search_url (demo_lib empty_first_page) row_name_only
       = Inr (Some ''https://carex.com/pages/search-results-page?q=Widget%20A'')
   \<and> row_get row_neither ''variant_sku'' = Inr XNaN
   \<and> row_get row_neither ''variant_name'' = Inr XNaN
   \<and> make_search_url (demo_lib empty_first_page) row_neither = Inr None"
proof -
  let ?L = "demo_lib empty_first_page"
  have a: "row_get row_both ''variant_sku'' = Inr (XStr ''ABC-1'')"
    and b: "row_get row_both ''variant_name'' = Inr (XStr ''Widget A'')"
    and c: "row_get row_name_only ''variant_sku'' = Inr XNaN"
    and d: "row_get row_name_only ''variant_name'' = Inr (XStr ''Widget A'')"
    and e: "row_get row_neither ''variant_sku'' = Inr XNaN"
    and f: "row_get row_neither ''variant_name'' = Inr XNaN"
    by code_simp+
  have q1: "base_search_url @ quote (xstr ?L (XStr ''ABC-1''))
      = ''https://carex.com/pages/search-results-page?q=ABC-1''"
    and q2: "base_search_url @ quote (xstr ?L (XStr ''Widget A''))
      = ''https://carex.com/pages/search-results-page?q=Widget%20A''"
    by code_simp+
  have "make_search_url ?L row_both = Inr (Some ''https://carex.com/pages/search-results-page?q=ABC-1'')"
    using make_search_url_query [OF a b, of ?L] by (simp only: q1 notna.simps if_True)
  moreover have "make_search_url ?L row_name_only
      = Inr (Some ''https://carex.com/pages/search-results-page?q=Widget%20A'')"
    using make_search_url_query [OF c d, of ?L] by (simp only: q2 notna.simps if_True if_False)
  moreover have "make_search_url ?L row_neither = Inr None"
    using make_search_url_query [OF e f, of ?L] by (simp only: notna.simps if_False)
  ultimately show ?thesis using a b c d e f by blast
qed

section \<open>Retries and the row loop\<close>

lemma extract_all_raise:
  "\<forall>k<n. \<exists>e. drv (t + k) url = Raises e \<and> is_Exception e \<Longrightarrow>
   extract_first_product_info drv t url n = (Inr (XNone, ''Retry Failed''), t + n)"
proof (induction n arbitrary: t)
  case 0
  then show ?case by simp
next
  case (Suc n)
  from Suc.prems have "\<exists>e. drv (t + 0) url = Raises e \<and> is_Exception e"
    by blast
  then obtain e where e: "drv t url = Raises e" "is_Exception e"
    by auto
  have "\<forall>k<n. \<exists>e. drv (Suc t + k) url = Raises e \<and> is_Exception e"
  proof (intro allI impI)
    fix k assume "k < n"
    then have "Suc k < Suc n" by simp
    with Suc.prems have "\<exists>e. drv (t + Suc k) url = Raises e \<and> is_Exception e"
      by blast
    then show "\<exists>e. drv (Suc t + k) url = Raises e \<and> is_Exception e"
      by simp
  qed
  from Suc.IH [OF this] e show ?case by simp
qed

lemma extract_navigates: "t < snd (extract_first_product_info drv t url (Suc n))"
proof (induction n arbitrary: t)
  case 0
  show ?case
    by (simp split: page_probe.splits option.splits)
next
  case (Suc n)
  have "Suc t < snd (extract_first_product_info drv (Suc t) url (Suc n))"
    by (rule Suc.IH)
  then have "t < snd (extract_first_product_info drv (Suc t) url (Suc n))"
    by simp
  then show ?case
    by (subst extract_first_product_info.simps) (simp split: page_probe.splits option.splits)
qed

lemma check_rows_clock: "t \<le> snd (check_rows drv t rows)"
proof (induction rows arbitrary: t)
  case Nil
  then show ?case by simp
next
  case (Cons row rows)
  show ?case
  proof (cases "row_get row ''search_url''")
    case (Inl e)
    then show ?thesis by simp
  next
    case (Inr url)
    obtain r t' where ex: "extract_first_product_info drv t url 5 = (r, t')"
      by (cases "extract_first_product_info drv t url 5")
    have "t < snd (extract_first_product_info drv t url (Suc 4))"
      by (rule extract_navigates)
    with ex have lt: "t < t'" by (simp add: eval_nat_numeral)
    from Cons.IH [of t'] have "t' \<le> snd (check_rows drv t' rows)" .
    with lt Inr ex show ?thesis
      by (cases r) (auto split: prod.splits sum.splits)
  qed
qed

lemma check_rows_navigates:
  "row_get row ''search_url'' = Inr url \<Longrightarrow> t < snd (check_rows drv t (row # rows))"
proof -
  assume url: "row_get row ''search_url'' = Inr url"
  obtain r t' where ex: "extract_first_product_info drv t url 5 = (r, t')"
    by (cases "extract_first_product_info drv t url 5")
  have "t < snd (extract_first_product_info drv t url (Suc 4))"
    by (rule extract_navigates)
  with ex have lt: "t < t'" by (simp add: eval_nat_numeral)
  from check_rows_clock [of t' drv rows] lt url ex show ?thesis
    by (cases r) (auto split: prod.splits sum.splits)
qed

lemma check_rows_retry_failed:
  assumes "row_get row ''search_url'' = Inr url"
    and "\<forall>k<5. \<exists>e. drv (t + k) url = Raises e \<and> is_Exception e"
  shows "check_rows drv t (row # rows) =
     (case check_rows drv (t + 5) rows of
        (Inl e, t') \<Rightarrow> (Inl e, t')
      | (Inr results, t') \<Rightarrow>
          (Inr (dict_set (dict_set row ''product_page_url'' XNone)
                  ''stock_status'' (XStr ''Retry Failed'') # results), t'))"
  using assms(1) extract_all_raise [where n = 5 and drv = drv and t = t and url = url, OF assms(2)]
  by simp

lemma row_get_dict_set: "row_get (dict_set row k v) k = Inr v"
  by (simp add: row_get_def map_of_dict_set)

text \<open>Claim C7. When the five navigations a row gets, from navigation count \<open>t\<close> on, each
  raise an exception that \<^verbatim>\<open>except Exception\<close> catches, \<^verbatim>\<open>extract_first_product_info\<close>
  makes exactly these five attempts and returns no product URL and the status
  \<^verbatim>\<open>Retry Failed\<close>, no exception reaching the caller; and the row loop records that result
  for the row and carries on with the remaining rows.\<close>

theorem retry_exhaustion:
  assumes "\<forall>k<5. \<exists>e. drv (t + k) url = Raises e \<and> is_Exception e"
  shows "extract_first_product_info drv t url 5 = (Inr (XNone, ''Retry Failed''), t + 5)
    \<and> (\<forall>row rows. row_get row ''search_url'' = Inr url \<longrightarrow>
          check_rows drv t (row # rows) =
            (case check_rows drv (t + 5) rows of
               (Inl e, t') \<Rightarrow> (Inl e, t')
             | (Inr results, t') \<Rightarrow>
                 (Inr (dict_set (dict_set row ''product_page_url'' XNone)
                         ''stock_status'' (XStr ''Retry Failed'') # results), t')))"
  using extract_all_raise [where n = 5 and drv = drv and t = t and url = url, OF assms]
    check_rows_retry_failed [where drv = drv and t = t and url = url, OF _ assms]
  by blast

text \<open>The theorem for C7 at a browser that always times out.\<close>

theorem retry_exhaustion_witness:
  "timing_out_driver 0 (XStr ''https://carex.com/pages/search-results-page?q=ABC-1'')
     = Raises TimeoutException
   \<and> is_Exception TimeoutException
   \<and> extract_first_product_info timing_out_driver 0
       (XStr ''https://carex.com/pages/search-results-page?q=ABC-1'') 5
     = (Inr (XNone, ''Retry Failed''), 5)
   \<and> check_rows timing_out_driver 0 [row_both_url] =
       (Inr [[(''variant_name'', XStr ''Widget A''), (''variant_sku'', XStr ''ABC-1''),
              (''variant_price_usd'', XFloat 15), (''variant_public_title'', XNaN),
              (''search_url'', XStr ''https://carex.com/pages/search-results-page?q=ABC-1''),
              (''product_page_url'', XNone), (''stock_status'', XStr ''Retry Failed'')]], 5)"
proof -
  let ?url = "XStr ''https://carex.com/pages/search-results-page?q=ABC-1''"
  have hyp: "\<forall>k<5. \<exists>e. timing_out_driver (0 + k) ?url = Raises e \<and> is_Exception e"
    by (simp add: timing_out_driver_def)
  have get: "row_get row_both_url ''search_url'' = Inr ?url"
    by code_simp
  note inst = retry_exhaustion [where drv = timing_out_driver and t = 0 and url = ?url, OF hyp]
  from inst have a: "extract_first_product_info timing_out_driver 0 ?url 5
      = (Inr (XNone, ''Retry Failed''), 5)"
    by simp
  from inst get have "check_rows timing_out_driver 0 (row_both_url # []) =
      (case check_rows timing_out_driver (0 + 5) [] of
         (Inl e, t') \<Rightarrow> (Inl e, t')
       | (Inr results, t') \<Rightarrow>
           (Inr (dict_set (dict_set row_both_url ''product_page_url'' XNone)
                   ''stock_status'' (XStr ''Retry Failed'') # results), t'))"
    by blast
  then have b: "check_rows timing_out_driver 0 [row_both_url] =
       (Inr [[(''variant_name'', XStr ''Widget A''), (''variant_sku'', XStr ''ABC-1''),
              (''variant_price_usd'', XFloat 15), (''variant_public_title'', XNaN),
              (''search_url'', XStr ''https://carex.com/pages/search-results-page?q=ABC-1''),
              (''product_page_url'', XNone), (''stock_status'', XStr ''Retry Failed'')]], 5)"
    by (simp add: row_both_url_def)
  have "timing_out_driver 0 ?url = Raises TimeoutException" "is_Exception TimeoutException"
    by (simp_all add: timing_out_driver_def)
  with a b show ?thesis by blast
qed

text \<open>C3 as stated fails: the row without SKU and name is driven through the retry path, five
  navigations are made for it, and its status is \<^verbatim>\<open>Retry Failed\<close>, not \<^verbatim>\<open>Unknown\<close>.\<close>

theorem no_query_row_counterexample:
  "scrape_search_results (demo_lib empty_first_page) rejecting_driver (Some [row_neither]) =
     \<lparr>driver_acquired = True, driver_quit = True, navigations = 5,
      saved = Some [[(''variant_name'', XNaN), (''variant_sku'', XNaN),
                     (''variant_price_usd'', XFloat 15), (''variant_public_title'', XNaN),
                     (''search_url'', XNone), (''product_page_url'', XNone),
                     (''stock_status'', XStr ''Retry Failed'')]],
      run_raised = None\<rparr>"
  by code_simp

text \<open>Claim C3, as the code has it. For a row whose SKU and name cells are both absent no
  search URL is built: the \<^verbatim>\<open>search_url\<close> cell is \<^verbatim>\<open>None\<close>. Nothing skips the row: the
  loop passes that \<^verbatim>\<open>None\<close> to \<^verbatim>\<open>extract_first_product_info\<close>, the browser is
  navigated at least once for it, and when its five navigations each raise an exception
  the row ends with no product URL and the status \<^verbatim>\<open>Retry Failed\<close>.\<close>

theorem no_query_row_still_probed:
  assumes "row_get row ''variant_sku'' = Inr sku" and "\<not> notna sku"
    and "row_get row ''variant_name'' = Inr name" and "\<not> notna name"
  shows "make_search_url L row = Inr None
    \<and> (\<forall>rows df. add_search_url L rows = Inr df \<longrightarrow>
          add_search_url L (row # rows) = Inr (dict_set row ''search_url'' XNone # df))
    \<and> (\<forall>drv t df. t < snd (check_rows drv t (dict_set row ''search_url'' XNone # df)))
    \<and> (\<forall>drv t df. (\<forall>k<5. \<exists>e. drv (t + k) XNone = Raises e \<and> is_Exception e) \<longrightarrow>
          check_rows drv t (dict_set row ''search_url'' XNone # df) =
            (case check_rows drv (t + 5) df of
               (Inl e, t') \<Rightarrow> (Inl e, t')
             | (Inr results, t') \<Rightarrow>
                 (Inr (dict_set (dict_set (dict_set row ''search_url'' XNone)
                          ''product_page_url'' XNone)
                         ''stock_status'' (XStr ''Retry Failed'') # results), t')))"
proof -
  have url: "make_search_url L row = Inr None"
    using assms by (simp add: make_search_url_def)
  have add: "add_search_url L (row # rows) = Inr (dict_set row ''search_url'' XNone # df)"
    if "add_search_url L rows = Inr df" for rows df
    using url that by (simp add: url_cell_def)
  have nav: "t < snd (check_rows drv t (dict_set row ''search_url'' XNone # df))" for drv t df
    by (rule check_rows_navigates [OF row_get_dict_set])
  have fail: "check_rows drv t (dict_set row ''search_url'' XNone # df) =
            (case check_rows drv (t + 5) df of
               (Inl e, t') \<Rightarrow> (Inl e, t')
             | (Inr results, t') \<Rightarrow>
                 (Inr (dict_set (dict_set (dict_set row ''search_url'' XNone)
                          ''product_page_url'' XNone)
                         ''stock_status'' (XStr ''Retry Failed'') # results), t'))"
    if "\<forall>k<5. \<exists>e. drv (t + k) XNone = Raises e \<and> is_Exception e" for drv t df
    by (rule check_rows_retry_failed [where drv = drv and t = t and url = XNone,
          OF row_get_dict_set that])
  from url add nav fail show ?thesis by blast
qed

text \<open>The theorem for C3 at the row without SKU and name and
  the browser that rejects \<^verbatim>\<open>None\<close>.\<close>

theorem no_query_row_still_probed_witness:
  "row_get row_neither ''variant_sku'' = Inr XNaN \<and> \<not> notna XNaN
   \<and> row_get row_neither ''variant_name'' = Inr XNaN
   \<and> make_search_url (demo_lib empty_first_page) row_neither = Inr None
   \<and> add_search_url (demo_lib empty_first_page) [row_neither]
       = Inr [dict_set row_neither ''search_url'' XNone]
   \<and> 0 < snd (check_rows rejecting_driver 0 [dict_set row_neither ''search_url'' XNone])
   \<and> check_rows rejecting_driver 0 [dict_set row_neither ''search_url'' XNone] =
       (Inr [[(''variant_name'', XNaN), (''variant_sku'', XNaN),
              (''variant_price_usd'', XFloat 15), (''variant_public_title'', XNaN),
              (''search_url'', XNone), (''product_page_url'', XNone),
              (''stock_status'', XStr ''Retry Failed'')]], 5)"
proof -
  let ?L = "demo_lib empty_first_page"
  let ?row = "dict_set row_neither ''search_url'' XNone"
  have a: "row_get row_neither ''variant_sku'' = Inr XNaN"
    and b: "\<not> notna XNaN"
    and c: "row_get row_neither ''variant_name'' = Inr XNaN"
    by code_simp+
  note inst = no_query_row_still_probed [OF a b c b, of ?L]
  have hyp: "\<forall>k<5. \<exists>e. rejecting_driver (0 + k) XNone = Raises e \<and> is_Exception e"
    by (simp add: rejecting_driver_def)
  have nil: "add_search_url ?L [] = Inr []"
    by simp
  from inst have u: "make_search_url ?L row_neither = Inr None"
    by blast
  from inst nil have d: "add_search_url ?L [row_neither] = Inr [?row]"
    by blast
  from inst have e: "0 < snd (check_rows rejecting_driver 0 [?row])"
    by blast
  from inst hyp have "check_rows rejecting_driver 0 (?row # []) =
       (case check_rows rejecting_driver (0 + 5) [] of
          (Inl e, t') \<Rightarrow> (Inl e, t')
        | (Inr results, t') \<Rightarrow>
            (Inr (dict_set (dict_set ?row ''product_page_url'' XNone)
                    ''stock_status'' (XStr ''Retry Failed'') # results), t'))"
    by blast
  then have f: "check_rows rejecting_driver 0 [?row] =
       (Inr [[(''variant_name'', XNaN), (''variant_sku'', XNaN),
              (''variant_price_usd'', XFloat 15), (''variant_public_title'', XNaN),
              (''search_url'', XNone), (''product_page_url'', XNone),
              (''stock_status'', XStr ''Retry Failed'')]], 5)"
    by (simp add: row_neither_def)
  from a b c u d e f show ?thesis by blast
qed

section \<open>The browser session\<close>

text \<open>C4 as stated fails: a \<^verbatim>\<open>KeyboardInterrupt\<close> during the first navigation leaves
  \<^verbatim>\<open>scrape_search_results\<close> with the session acquired and never quit.\<close>

theorem session_leak_counterexample:
  "scrape_search_results (demo_lib empty_first_page) interrupted_driver (Some [row_both]) =
     \<lparr>driver_acquired = True, driver_quit = False, navigations = 1,
      saved = None, run_raised = Some KeyboardInterrupt\<rparr>"
  by code_simp

lemma extract_no_escape:
  "\<forall>t url e. drv t url = Raises e \<longrightarrow> is_Exception e \<Longrightarrow>
   \<exists>r. fst (extract_first_product_info drv t url n) = Inr r"
  by (induction n arbitrary: t) (auto split: page_probe.splits option.splits)

lemma add_search_url_cells:
  "add_search_url L df_input = Inr df \<Longrightarrow> \<forall>row \<in> set df. \<exists>u. row_get row ''search_url'' = Inr u"
  by (induction df_input arbitrary: df) (auto split: sum.splits simp: row_get_dict_set)

lemma check_rows_completes:
  assumes "\<forall>t url e. drv t url = Raises e \<longrightarrow> is_Exception e"
  shows "\<forall>row \<in> set rows. \<exists>u. row_get row ''search_url'' = Inr u \<Longrightarrow>
         \<exists>results. fst (check_rows drv t rows) = Inr results"
proof (induction rows arbitrary: t)
  case Nil
  then show ?case by simp
next
  case (Cons row rows)
  from Cons.prems obtain u where u: "row_get row ''search_url'' = Inr u"
    by auto
  obtain r t' where ex: "extract_first_product_info drv t u 5 = (r, t')"
    by (cases "extract_first_product_info drv t u 5")
  with extract_no_escape [OF assms, of t u 5] obtain product_url stock_status
    where r: "r = Inr (product_url, stock_status)"
    by (cases r) auto
  from Cons.prems have "\<forall>row \<in> set rows. \<exists>u. row_get row ''search_url'' = Inr u"
    by simp
  from Cons.IH [OF this, of t'] obtain results where "fst (check_rows drv t' rows) = Inr results"
    by blast
  with u ex r show ?case
    by (cases "check_rows drv t' rows") auto
qed

text \<open>Claim C4, as the code has it. \<^verbatim>\<open>driver.quit\<close> is called exactly when the session was
  acquired and no exception ended the run: on the one path through the end of the row
  loop. When every exception the browser raises is one that \<^verbatim>\<open>except Exception\<close>
  catches, the loop always reaches its end, so an acquired session is released.\<close>

theorem session_released_when_loop_completes:
  "driver_quit (scrape_search_results L drv input_file) =
     (driver_acquired (scrape_search_results L drv input_file)
      \<and> run_raised (scrape_search_results L drv input_file) = None)
   \<and> ((\<forall>t url e. drv t url = Raises e \<longrightarrow> is_Exception e) \<longrightarrow>
        driver_quit (scrape_search_results L drv input_file) =
        driver_acquired (scrape_search_results L drv input_file))"
proof (intro conjI impI)
  show "driver_quit (scrape_search_results L drv input_file) =
     (driver_acquired (scrape_search_results L drv input_file)
      \<and> run_raised (scrape_search_results L drv input_file) = None)"
    by (auto simp: scrape_search_results_def split: option.splits sum.splits prod.splits)
next
  assume safe: "\<forall>t url e. drv t url = Raises e \<longrightarrow> is_Exception e"
  show "driver_quit (scrape_search_results L drv input_file) =
        driver_acquired (scrape_search_results L drv input_file)"
  proof (cases input_file)
    case None
    then show ?thesis by (simp add: scrape_search_results_def)
  next
    case (Some df_input)
    show ?thesis
    proof (cases "add_search_url L df_input")
      case (Inl e)
      with Some show ?thesis by (simp add: scrape_search_results_def)
    next
      case (Inr df)
      from check_rows_completes [OF safe add_search_url_cells [OF Inr], of 0]
      obtain results where "fst (check_rows drv 0 df) = Inr results"
        by blast
      with Some Inr show ?thesis
        by (cases "check_rows drv 0 df") (simp add: scrape_search_results_def)
    qed
  qed
qed

text \<open>The theorem for C4 at a browser that
  always times out.\<close>

theorem session_released_when_loop_completes_witness:
  "is_Exception TimeoutException
   \<and> scrape_search_results (demo_lib empty_first_page) timing_out_driver (Some [row_both]) =
     \<lparr>driver_acquired = True, driver_quit = True, navigations = 5,
      saved = Some [[(''variant_name'', XStr ''Widget A''), (''variant_sku'', XStr ''ABC-1''),
              (''variant_price_usd'', XFloat 15), (''variant_public_title'', XNaN),
              (''search_url'', XStr ''https://carex.com/pages/search-results-page?q=ABC-1''),
              (''product_page_url'', XNone), (''stock_status'', XStr ''Retry Failed'')]],
      run_raised = None\<rparr>
   \<and> driver_quit (scrape_search_results (demo_lib empty_first_page) timing_out_driver
        (Some [row_both]))
     = driver_acquired (scrape_search_results (demo_lib empty_first_page) timing_out_driver
        (Some [row_both]))"
proof -
  have safe: "\<forall>t url e. timing_out_driver t url = Raises e \<longrightarrow> is_Exception e"
    by (simp add: timing_out_driver_def)
  have run: "scrape_search_results (demo_lib empty_first_page) timing_out_driver (Some [row_both]) =
     \<lparr>driver_acquired = True, driver_quit = True, navigations = 5,
      saved = Some [[(''variant_name'', XStr ''Widget A''), (''variant_sku'', XStr ''ABC-1''),
              (''variant_price_usd'', XFloat 15), (''variant_public_title'', XNaN),
              (''search_url'', XStr ''https://carex.com/pages/search-results-page?q=ABC-1''),
              (''product_page_url'', XNone), (''stock_status'', XStr ''Retry Failed'')]],
      run_raised = None\<rparr>"
    by code_simp
  from session_released_when_loop_completes
    [of "demo_lib empty_first_page" timing_out_driver "Some [row_both]"] safe
  have "driver_quit (scrape_search_results (demo_lib empty_first_page) timing_out_driver
        (Some [row_both]))
     = driver_acquired (scrape_search_results (demo_lib empty_first_page) timing_out_driver
        (Some [row_both]))"
    by blast
  with run show ?thesis by simp
qed

end
